theory Spec2Isabelle
  imports Complex_Main "HOL-Library.AList"
begin

section \<open>The world of \<open>app.py\<close>: configuration, clock and the scores file\<close>

text \<open>
  The module keeps no state of its own: everything lives in \<open>config.json\<close> (read again on
  every call), in \<open>scores.csv\<close> and in the system clock. The model passes these around
  as one record.

  \<^item> \<open>scores_file\<close> is \<open>scores.csv\<close>: \<open>None\<close> when \<open>os.path.exists\<close> is false, else
    the rows \<open>csv.reader\<close> yields, each a list of text cells. \<open>csv.writer\<close> and
    \<open>csv.reader\<close> are taken to round-trip rows of strings, so the text encoding of
    the file (quoting, line ends) is not modelled.
  \<^item> \<open>config_criteria\<close> is what \<open>get_criteria()\<close> returns; a configuration that cannot
    be loaded is outside the model.
  \<^item> \<open>clock\<close> is what \<open>datetime.now().isoformat()\<close> returns.

  The \<open>FileLock\<close> around the file accesses is taken to be acquired: a single caller at a
  time, no time-out.
\<close>

record criterion =
  crit_id :: string
  crit_name :: string
  max_score :: int

type_synonym csv_row = "string list"

record world =
  scores_file :: "csv_row list option"
  config_criteria :: "criterion list"
  clock :: string

definition get_criteria :: "world \<Rightarrow> criterion list" where
  "get_criteria w = config_criteria w"

text \<open>The header both \<open>init_scores_file\<close> and \<open>save_scores\<close> build.\<close>

definition headers_of :: "criterion list \<Rightarrow> csv_row" where
  "headers_of criteria =
     [''timestamp'', ''judge'', ''team_id'', ''team_name''] @ map crit_id criteria"

subsection \<open>\<open>init_scores_file\<close>\<close>

definition init_scores_file :: "world \<Rightarrow> world" where
  "init_scores_file w =
     (case scores_file w of
        None \<Rightarrow> w\<lparr>scores_file := Some [headers_of (get_criteria w)]\<rparr>
      | Some rows \<Rightarrow> w)"

subsection \<open>\<open>save_scores\<close>\<close>

text \<open>\<open>str\<close> of a Python int, as \<open>csv.writer\<close> renders a score.\<close>

definition digit_char :: "nat \<Rightarrow> char" where
  "digit_char d = ''0123456789'' ! d"

fun str_nat :: "nat \<Rightarrow> string" where
  "str_nat n = (if n < 10 then [digit_char n] else str_nat (n div 10) @ [digit_char (n mod 10)])"

declare str_nat.simps [simp del]

definition str_int :: "int \<Rightarrow> string" where
  "str_int i = (if i < 0 then CHR ''-'' # str_nat (nat (- i)) else str_nat (nat i))"

text \<open>\<open>scores.get(c['id'], 0)\<close>\<close>

definition scores_get :: "(string \<rightharpoonup> int) \<Rightarrow> string \<Rightarrow> int" where
  "scores_get scores k = (case scores k of None \<Rightarrow> 0 | Some v \<Rightarrow> v)"

definition new_row_of ::
  "world \<Rightarrow> string \<Rightarrow> string \<Rightarrow> string \<Rightarrow> (string \<rightharpoonup> int) \<Rightarrow> csv_row" where
  "new_row_of w judge team_id team_name scores =
     [clock w, judge, team_id, team_name]
       @ map (\<lambda>c. str_int (scores_get scores (crit_id c))) (get_criteria w)"

text \<open>The test of the scan: \<open>len(row) >= 3 and row[1] == judge and row[2] == team_id\<close>.\<close>

definition row_matches :: "string \<Rightarrow> string \<Rightarrow> csv_row \<Rightarrow> bool" where
  "row_matches judge team_id row \<longleftrightarrow> 3 \<le> length row \<and> row ! 1 = judge \<and> row ! 2 = team_id"

text \<open>
  \<open>for i, row in enumerate(existing_rows[1:], start=1)\<close> up to its \<open>break\<close>: the index of
  the first row that matches, counted from \<open>i\<close>.
\<close>

fun first_match :: "string \<Rightarrow> string \<Rightarrow> nat \<Rightarrow> csv_row list \<Rightarrow> nat option" where
  "first_match judge team_id i [] = None"
| "first_match judge team_id i (row # rows) =
     (if row_matches judge team_id row then Some i
      else first_match judge team_id (Suc i) rows)"

definition save_scores ::
  "string \<Rightarrow> string \<Rightarrow> string \<Rightarrow> (string \<rightharpoonup> int) \<Rightarrow> world \<Rightarrow> world" where
  "save_scores judge team_id team_name scores w =
     (let read_rows = (case scores_file w of None \<Rightarrow> [] | Some rows \<Rightarrow> rows);
          existing_rows = (if read_rows = [] then [headers_of (get_criteria w)] else read_rows);
          new_row = new_row_of w judge team_id team_name scores
      in w\<lparr>scores_file :=
             Some (case first_match judge team_id 1 (drop 1 existing_rows) of
                     Some i \<Rightarrow> existing_rows[i := new_row]
                   | None \<Rightarrow> existing_rows @ [new_row])\<rparr>)"

subsection \<open>\<open>get_all_scores\<close>\<close>

text \<open>
  A cell of a record or of the data frame built from the records: a text, Python's
  \<open>None\<close> (a missing value), or a number once \<open>pd.to_numeric\<close> has run over the column.
\<close>

datatype cell = Text string | Null | Num real

text \<open>
  One dict of \<open>csv.DictReader\<close>: the named cells in insertion order, and under the key
  \<open>None\<close> (\<open>restkey\<close>) the cells of a row longer than the header.
\<close>

record score_dict =
  named :: "(string \<times> cell) list"
  restkey :: "csv_row option"

definition row_to_dict :: "csv_row \<Rightarrow> csv_row \<Rightarrow> score_dict" where
  "row_to_dict fieldnames row =
     (let d = fold (\<lambda>(k, v). AList.update k (Text v)) (zip fieldnames row) [];
          lf = length fieldnames;
          lr = length row
      in if lf < lr then \<lparr>named = d, restkey = Some (drop lf row)\<rparr>
         else if lr < lf then
           \<lparr>named = fold (\<lambda>k. AList.update k Null) (drop lr fieldnames) d, restkey = None\<rparr>
         else \<lparr>named = d, restkey = None\<rparr>)"

text \<open>The first row is the field names; blank rows after it are skipped.\<close>

fun DictReader :: "csv_row list \<Rightarrow> score_dict list" where
  "DictReader [] = []"
| "DictReader (fieldnames # rows) = map (row_to_dict fieldnames) (filter (\<lambda>row. row \<noteq> []) rows)"

definition get_all_scores :: "world \<Rightarrow> score_dict list" where
  "get_all_scores w = (case scores_file w of None \<Rightarrow> [] | Some rows \<Rightarrow> DictReader rows)"

text \<open>\<open>score.get(key)\<close> on a record, and the values a list of records has under one key.\<close>

definition dict_get :: "score_dict \<Rightarrow> string \<Rightarrow> cell option" where
  "dict_get d k = map_of (named d) k"

definition values_of :: "string \<Rightarrow> score_dict list \<Rightarrow> cell option list" where
  "values_of k all_scores = map (\<lambda>d. dict_get d k) all_scores"

section \<open>\<open>normalize_scores\<close>\<close>

text \<open>
  The numbers of pandas and numpy are 64-bit floats; the model has reals in their place,
  with no infinity and no NaN. Sums, differences, quotients and the rounding to two
  decimals are the mathematical ones, so a row total does not wrap around as a sum of
  64-bit integers does. What \<open>Series.mean()\<close> and \<open>Series.std()\<close> return is not computed by
  the model at all: the two are parameters of the engine (\<open>float_stats\<close>), because the sign
  of a computed deviation, which the code tests, depends on the rounding of the floats.
\<close>

datatype error = KeyError "string list" | IndexError

subsection \<open>Numbers\<close>

definition mean :: "real list \<Rightarrow> real" where
  "mean xs = sum_list xs / real (length xs)"

text \<open>The sample standard deviation (\<open>ddof=1\<close>), over the reals.\<close>

definition std :: "real list \<Rightarrow> real" where
  "std xs = sqrt (sum_list (map (\<lambda>x. (x - mean xs)\<^sup>2) xs) / real (length xs - 1))"

text \<open>
  \<open>Series.mean()\<close> and \<open>Series.std()\<close> as pandas computes them on a column of floats: the
  arithmetic mean and the sample standard deviation (\<open>ddof=1\<close>), each up to the rounding of
  its float operations. \<open>exact_stats\<close> are the two without any rounding; on three totals
  of 0.1 the floats of pandas give a deviation above 0 where \<open>exact_stats\<close> gives 0.
\<close>

record float_stats =
  series_mean :: "real list \<Rightarrow> real"
  series_std :: "real list \<Rightarrow> real"

definition exact_stats :: float_stats where
  "exact_stats = \<lparr>series_mean = mean, series_std = std\<rparr>"

text \<open>\<open>.clip(lower, upper)\<close>\<close>

definition clip :: "real \<Rightarrow> real \<Rightarrow> real \<Rightarrow> real" where
  "clip x lower upper = min (max x lower) upper"

text \<open>Rounding to the nearest integer, a tie going to the even one, as numpy and Python round.\<close>

definition rint :: "real \<Rightarrow> int" where
  "rint x =
     (let f = \<lfloor>x\<rfloor>
      in if x - of_int f < 1 / 2 then f
         else if 1 / 2 < x - of_int f then f + 1
         else if even f then f else f + 1)"

text \<open>\<open>.round(2)\<close> and \<open>round(x, 2)\<close>\<close>

definition round2 :: "real \<Rightarrow> real" where
  "round2 x = of_int (rint (x * 100)) / 100"

subsection \<open>The data frame\<close>

text \<open>
  \<open>pd.DataFrame(all_scores)\<close>: one row per record; its columns are the keys of the
  records, and a record without a key has a missing value there.
\<close>

type_synonym frame_cells = "(string \<times> cell) list"

definition df_columns :: "score_dict list \<Rightarrow> string list" where
  "df_columns all_scores = remdups (concat (map (\<lambda>d. map fst (named d)) all_scores))"

text \<open>\<open>df.empty\<close> for a frame with at least one row: no column, the one labelled \<open>None\<close> included.\<close>

definition df_empty :: "score_dict list \<Rightarrow> bool" where
  "df_empty all_scores \<longleftrightarrow>
     all_scores = [] \<or> (df_columns all_scores = [] \<and> list_all (\<lambda>d. restkey d = None) all_scores)"

definition cell_at :: "frame_cells \<Rightarrow> string \<Rightarrow> cell" where
  "cell_at r k = (case map_of r k of None \<Rightarrow> Null | Some c \<Rightarrow> c)"

text \<open>
  \<open>pd.to_numeric(column, errors='coerce').fillna(0)\<close> on one cell. How pandas reads a
  text as a number is a parameter: \<open>parse s = Some x\<close> when it reads the number \<open>x\<close>,
  \<open>None\<close> when the text is no number (it becomes NaN, then 0).
\<close>

type_synonym parser = "string \<Rightarrow> real option"

definition to_numeric :: "parser \<Rightarrow> cell \<Rightarrow> real" where
  "to_numeric parse c =
     (case c of
        Text s \<Rightarrow> (case parse s of None \<Rightarrow> 0 | Some x \<Rightarrow> x)
      | Null \<Rightarrow> 0
      | Num x \<Rightarrow> x)"

definition coerce_column :: "parser \<Rightarrow> string \<Rightarrow> frame_cells list \<Rightarrow> frame_cells list" where
  "coerce_column parse cid df =
     map (\<lambda>r. AList.update cid (Num (to_numeric parse (cell_at r cid))) r) df"

text \<open>\<open>for cid in criteria_ids: if cid in df.columns: df[cid] = ...\<close>\<close>

definition coerce_columns ::
  "parser \<Rightarrow> string list \<Rightarrow> string list \<Rightarrow> frame_cells list \<Rightarrow> frame_cells list" where
  "coerce_columns parse columns criteria_ids df =
     fold (\<lambda>cid df. if cid \<in> set columns then coerce_column parse cid df else df) criteria_ids df"

text \<open>
  The value of a cell in a row sum. Every column that is summed has been through
  \<open>to_numeric\<close>, so only the case \<open>Num\<close> arises.
\<close>

definition number_of :: "cell \<Rightarrow> real" where
  "number_of c = (case c of Num x \<Rightarrow> x | _ \<Rightarrow> 0)"

record df_row =
  cells :: frame_cells
  total_raw :: real

record judge_row = df_row +
  z_score :: real

record result_row = judge_row +
  normalized_score :: real

text \<open>
  \<open>df['total_raw'] = df[criteria_ids].sum(axis=1)\<close>. Selecting a list of labels raises
  \<open>KeyError\<close> when one of them is no column of the frame.
\<close>

definition add_total_raw ::
  "string list \<Rightarrow> string list \<Rightarrow> frame_cells list \<Rightarrow> error + df_row list" where
  "add_total_raw columns criteria_ids df =
     (if list_all (\<lambda>cid. cid \<in> set columns) criteria_ids then
        Inr (map (\<lambda>r. \<lparr>cells = r,
                        total_raw = sum_list (map (\<lambda>cid. number_of (cell_at r cid)) criteria_ids)\<rparr>) df)
      else Inl (KeyError (filter (\<lambda>cid. cid \<notin> set columns) criteria_ids)))"

subsection \<open>Z-scores per judge\<close>

text \<open>\<open>Series.unique()\<close>: the values in order of first appearance.\<close>

fun unique_from :: "'a list \<Rightarrow> 'a list \<Rightarrow> 'a list" where
  "unique_from seen [] = []"
| "unique_from seen (x # xs) =
     (if x \<in> set seen then unique_from seen xs else x # unique_from (x # seen) xs)"

definition unique :: "'a list \<Rightarrow> 'a list" where
  "unique xs = unique_from [] xs"

text \<open>The elementwise \<open>==\<close> of a column with a value: a missing value equals nothing.\<close>

definition cell_eq :: "cell \<Rightarrow> cell \<Rightarrow> bool" where
  "cell_eq a b \<longleftrightarrow> a \<noteq> Null \<and> b \<noteq> Null \<and> a = b"

definition judge_of :: "'a df_row_scheme \<Rightarrow> cell" where
  "judge_of r = cell_at (cells r) ''judge''"

text \<open>\<open>df[df['judge'] == judge]\<close>\<close>

definition judge_frame :: "cell \<Rightarrow> df_row list \<Rightarrow> df_row list" where
  "judge_frame judge df = filter (\<lambda>r. cell_eq (judge_of r) judge) df"

definition set_z :: "real \<Rightarrow> df_row \<Rightarrow> judge_row" where
  "set_z z r = \<lparr>cells = cells r, total_raw = total_raw r, z_score = z\<rparr>"

text \<open>The body of the loop over the judges: the \<open>z_score\<close> column of one judge's rows.\<close>

definition with_z_scores :: "float_stats \<Rightarrow> df_row list \<Rightarrow> judge_row list" where
  "with_z_scores fl judge_df =
     (if 1 < length judge_df then
        (let mean_score = series_mean fl (map total_raw judge_df);
             std_score = series_std fl (map total_raw judge_df)
         in if 0 < std_score then
              map (\<lambda>r. set_z ((total_raw r - mean_score) / std_score) r) judge_df
            else map (set_z 0) judge_df)
      else map (set_z 0) judge_df)"

definition normalized_data :: "float_stats \<Rightarrow> df_row list \<Rightarrow> judge_row list list" where
  "normalized_data fl df =
     map (\<lambda>judge. with_z_scores fl (judge_frame judge df)) (unique (map judge_of df))"

subsection \<open>The 0 to 100 scale\<close>

text \<open>\<open>((z + 3) / 6 * 100).clip(0, 100).round(2)\<close>\<close>

definition scale_z :: "real \<Rightarrow> real" where
  "scale_z z = round2 (clip ((z + 3) / 6 * 100) 0 100)"

definition set_normalized :: "judge_row \<Rightarrow> result_row" where
  "set_normalized r =
     \<lparr>cells = cells r, total_raw = total_raw r, z_score = z_score r,
      normalized_score = scale_z (z_score r)\<rparr>"

definition result_df_of :: "judge_row list list \<Rightarrow> result_row list" where
  "result_df_of frames = map set_normalized (concat frames)"

subsection \<open>Aggregation by team\<close>

record judge_score =
  judge :: cell
  raw_score :: real
  judge_normalized_score :: real

record team_result =
  team_id :: cell
  team_name :: cell
  avg_raw_score :: real
  avg_normalized_score :: real
  num_judges :: nat
  judge_scores :: "judge_score list"

definition team_of :: "'a df_row_scheme \<Rightarrow> cell" where
  "team_of r = cell_at (cells r) ''team_id''"

text \<open>
  The body of the loop over the teams. \<open>team_data['team_name']\<close> raises \<open>KeyError\<close> without
  that column, and \<open>.iloc[0]\<close> raises \<open>IndexError\<close> on a selection with no row.
\<close>

definition team_entry ::
  "float_stats \<Rightarrow> string list \<Rightarrow> result_row list \<Rightarrow> cell \<Rightarrow> error + team_result" where
  "team_entry fl columns result_df tid =
     (let team_data = filter (\<lambda>r. cell_eq (team_of r) tid) result_df
      in if ''team_name'' \<notin> set columns then Inl (KeyError [''team_name''])
         else (case team_data of
                 [] \<Rightarrow> Inl IndexError
               | first # rest \<Rightarrow>
                   Inr \<lparr>team_id = tid,
                        team_name = cell_at (cells first) ''team_name'',
                        avg_raw_score = round2 (series_mean fl (map total_raw team_data)),
                        avg_normalized_score =
                          round2 (series_mean fl (map normalized_score team_data)),
                        num_judges = length team_data,
                        judge_scores =
                          map (\<lambda>row. \<lparr>judge = judge_of row, raw_score = total_raw row,
                                       judge_normalized_score = normalized_score row\<rparr>) team_data\<rparr>))"

text \<open>A loop that appends one result per item and stops at the first exception.\<close>

fun for_each :: "('a \<Rightarrow> error + 'b) \<Rightarrow> 'a list \<Rightarrow> error + 'b list" where
  "for_each f [] = Inr []"
| "for_each f (x # xs) =
     (case f x of
        Inl e \<Rightarrow> Inl e
      | Inr y \<Rightarrow> (case for_each f xs of Inl e \<Rightarrow> Inl e | Inr ys \<Rightarrow> Inr (y # ys)))"

definition aggregate_teams ::
  "float_stats \<Rightarrow> string list \<Rightarrow> result_row list \<Rightarrow> error + team_result list" where
  "aggregate_teams fl columns result_df =
     (if ''team_id'' \<notin> set columns then Inl (KeyError [''team_id''])
      else for_each (team_entry fl columns result_df) (unique (map team_of result_df)))"

text \<open>
  \<open>team_results.sort(key=..., reverse=True)\<close>: Python's sort is stable, also in reverse,
  so it is the stable ascending sort on the negated key.
\<close>

definition sort_results :: "team_result list \<Rightarrow> team_result list" where
  "sort_results team_results = sort_key (\<lambda>x. - avg_normalized_score x) team_results"

subsection \<open>The whole function\<close>

text \<open>Lines 140 to 218: the list \<open>team_results\<close> before it is sorted.\<close>

definition team_results_of :: "float_stats \<Rightarrow> parser \<Rightarrow> world \<Rightarrow> error + team_result list" where
  "team_results_of fl parse w =
     (let all_scores = get_all_scores w
      in if all_scores = [] then Inr []
         else
           (let criteria_ids = map crit_id (get_criteria w);
                columns = df_columns all_scores
            in if df_empty all_scores then Inr []
               else
                 (case add_total_raw columns criteria_ids
                         (coerce_columns parse columns criteria_ids (map named all_scores)) of
                    Inl e \<Rightarrow> Inl e
                  | Inr df \<Rightarrow>
                      if ''judge'' \<notin> set columns then Inl (KeyError [''judge''])
                      else
                        (let frames = normalized_data fl df
                         in if frames = [] then Inr []
                            else aggregate_teams fl columns (result_df_of frames)))))"

definition normalize_scores :: "float_stats \<Rightarrow> parser \<Rightarrow> world \<Rightarrow> error + team_result list" where
  "normalize_scores fl parse w =
     (case team_results_of fl parse w of
        Inl e \<Rightarrow> Inl e
      | Inr team_results \<Rightarrow> Inr (sort_results team_results))"

section \<open>Notions the statements use\<close>

subsection \<open>The ledger as stored\<close>

text \<open>
  The records of the ledger are the rows of the file after its first row, the header.
  \<open>records_for\<close> are the records \<open>save_scores\<close> takes to belong to a (judge, team) pair;
  a row of fewer than three cells has no such pair.
\<close>

definition data_rows :: "world \<Rightarrow> csv_row list" where
  "data_rows w = (case scores_file w of None \<Rightarrow> [] | Some rows \<Rightarrow> drop 1 rows)"

definition records_for :: "string \<Rightarrow> string \<Rightarrow> world \<Rightarrow> csv_row list" where
  "records_for j t w = filter (row_matches j t) (data_rows w)"

definition row_key :: "csv_row \<Rightarrow> (string \<times> string) list" where
  "row_key row = (if 3 \<le> length row then [(row ! 1, row ! 2)] else [])"

definition ledger_keys :: "world \<Rightarrow> (string \<times> string) list" where
  "ledger_keys w = concat (map row_key (data_rows w))"

definition one_record_per_pair :: "world \<Rightarrow> bool" where
  "one_record_per_pair w \<longleftrightarrow> distinct (ledger_keys w)"

text \<open>
  One call of \<open>save_scores\<close>, with the clock and the configuration it finds: both may
  have changed since the call before.
\<close>

record upsert_call =
  call_clock :: string
  call_criteria :: "criterion list"
  call_judge :: string
  call_team_id :: string
  call_team_name :: string
  call_scores :: "string \<rightharpoonup> int"

definition upsert :: "upsert_call \<Rightarrow> world \<Rightarrow> world" where
  "upsert c w =
     save_scores (call_judge c) (call_team_id c) (call_team_name c) (call_scores c)
       (w\<lparr>config_criteria := call_criteria c, clock := call_clock c\<rparr>)"

text \<open>The rows \<open>save_scores\<close> starts from: a missing or empty file counts as the header alone.\<close>

definition existing_rows_of :: "world \<Rightarrow> csv_row list" where
  "existing_rows_of w =
     (case scores_file w of
        None \<Rightarrow> [headers_of (get_criteria w)]
      | Some rows \<Rightarrow> if rows = [] then [headers_of (get_criteria w)] else rows)"

subsection \<open>Example worlds\<close>

definition crit1 :: criterion where
  "crit1 = \<lparr>crit_id = ''c1'', crit_name = ''Innovation'', max_score = 100\<rparr>"

definition no_file :: world where
  "no_file = \<lparr>scores_file = None, config_criteria = [crit1], clock = ''t0''\<rparr>"

definition fresh :: world where
  "fresh = \<lparr>scores_file = None,
            config_criteria = [crit1, \<lparr>crit_id = ''c2'', crit_name = ''Execution'', max_score = 50\<rparr>],
            clock = ''t0''\<rparr>"

definition one_row :: world where
  "one_row = \<lparr>scores_file = Some [[''timestamp'', ''judge'', ''team_id'', ''team_name'', ''c1''],
                                 [''t0'', ''A'', ''T'', ''Team T'', ''5'']],
              config_criteria = [crit1], clock = ''t1''\<rparr>"

definition call_of :: "string \<Rightarrow> string \<Rightarrow> string \<Rightarrow> int \<Rightarrow> upsert_call" where
  "call_of now j t v =
     \<lparr>call_clock = now, call_criteria = [crit1], call_judge = j, call_team_id = t,
      call_team_name = ''Team '' @ t, call_scores = [''c1'' \<mapsto> v]\<rparr>"

subsection \<open>The coercion, row by row\<close>

text \<open>What the loop over the criteria does to one row of the frame.\<close>

definition coerce_row :: "parser \<Rightarrow> string list \<Rightarrow> string list \<Rightarrow> frame_cells \<Rightarrow> frame_cells" where
  "coerce_row parse columns criteria_ids r =
     fold (\<lambda>cid r. if cid \<in> set columns
                     then AList.update cid (Num (to_numeric parse (cell_at r cid))) r else r)
       criteria_ids r"

subsection \<open>A reader of plain decimal numbers\<close>

text \<open>
  The examples need a reader of numbers to stand for the one of pandas. This one reads
  a non-empty text of decimal digits, the form in which \<open>save_scores\<close> writes a score that
  is not negative, and takes any other text for no number.
\<close>

definition digit_value :: "char \<Rightarrow> nat option" where
  "digit_value c = map_of (zip ''0123456789'' [0 ..< 10]) c"

fun digits_value :: "nat \<Rightarrow> string \<Rightarrow> nat option" where
  "digits_value acc [] = Some acc"
| "digits_value acc (c # cs) =
     (case digit_value c of None \<Rightarrow> None | Some d \<Rightarrow> digits_value (10 * acc + d) cs)"

definition plain_decimal :: parser where
  "plain_decimal s = (if s = [] then None else map_option real (digits_value 0 s))"

subsection \<open>Example ledgers\<close>

text \<open>A file made under the criterion \<open>c1\<close> alone, read after \<open>c2\<close> was added to the configuration.\<close>

definition crit2 :: criterion where
  "crit2 = \<lparr>crit_id = ''c2'', crit_name = ''Execution'', max_score = 50\<rparr>"

definition stale_header :: world where
  "stale_header = one_row\<lparr>config_criteria := [crit1, crit2]\<rparr>"

text \<open>One judge, two teams, raw totals 80 and 60; the frame rows and the results they give.\<close>

definition alpha_beta :: world where
  "alpha_beta =
     \<lparr>scores_file = Some [[''timestamp'', ''judge'', ''team_id'', ''team_name'', ''c1'', ''c2''],
                          [''t1'', ''J'', ''a'', ''Alpha'', ''50'', ''30''],
                          [''t2'', ''J'', ''b'', ''Beta'', ''40'', ''20'']],
      config_criteria = [crit1, crit2], clock = ''t3''\<rparr>"

definition alpha_row :: df_row where
  "alpha_row = \<lparr>cells = [(''timestamp'', Text ''t1''), (''judge'', Text ''J''), (''team_id'', Text ''a''),
                (''team_name'', Text ''Alpha''), (''c1'', Num 50), (''c2'', Num 30)], total_raw = 80\<rparr>"

definition beta_row :: df_row where
  "beta_row = \<lparr>cells = [(''timestamp'', Text ''t2''), (''judge'', Text ''J''), (''team_id'', Text ''b''),
                (''team_name'', Text ''Beta''), (''c1'', Num 40), (''c2'', Num 20)], total_raw = 60\<rparr>"

definition alpha_result :: team_result where
  "alpha_result =
     \<lparr>team_id = Text ''a'', team_name = Text ''Alpha'', avg_raw_score = 80,
      avg_normalized_score = 61.79, num_judges = 1,
      judge_scores = [\<lparr>judge = Text ''J'', raw_score = 80, judge_normalized_score = 61.79\<rparr>]\<rparr>"

definition beta_result :: team_result where
  "beta_result =
     \<lparr>team_id = Text ''b'', team_name = Text ''Beta'', avg_raw_score = 60,
      avg_normalized_score = 38.21, num_judges = 1,
      judge_scores = [\<lparr>judge = Text ''J'', raw_score = 60, judge_normalized_score = 38.21\<rparr>]\<rparr>"

text \<open>One judge giving two teams the same total, and two judges whose teams tie pairwise.\<close>

definition same_totals :: world where
  "same_totals =
     \<lparr>scores_file = Some [[''timestamp'', ''judge'', ''team_id'', ''team_name'', ''c1'', ''c2''],
                          [''t1'', ''J'', ''a'', ''Alpha'', ''40'', ''30''],
                          [''t2'', ''J'', ''b'', ''Beta'', ''30'', ''40'']],
      config_criteria = [crit1, crit2], clock = ''t3''\<rparr>"

definition tie_world :: world where
  "tie_world =
     \<lparr>scores_file = Some [[''timestamp'', ''judge'', ''team_id'', ''team_name'', ''c1''],
                          [''t1'', ''J1'', ''b'', ''Beta'', ''60''],
                          [''t2'', ''J1'', ''a'', ''Alpha'', ''80''],
                          [''t3'', ''J2'', ''d'', ''Delta'', ''60''],
                          [''t4'', ''J2'', ''c'', ''Gamma'', ''80'']],
      config_criteria = [crit1], clock = ''t5''\<rparr>"

definition entry :: "string \<Rightarrow> string \<Rightarrow> string \<Rightarrow> real \<Rightarrow> real \<Rightarrow> team_result" where
  "entry tid tname j raw normalized =
     \<lparr>team_id = Text tid, team_name = Text tname, avg_raw_score = raw,
      avg_normalized_score = normalized, num_judges = 1,
      judge_scores = [\<lparr>judge = Text j, raw_score = raw, judge_normalized_score = normalized\<rparr>]\<rparr>"

section \<open>The score ledger\<close>

subsection \<open>Rendering of scores\<close>

lemma str_int_digits:
  "str_int 5 = ''5''" "str_int 3 = ''3''" "str_int 0 = ''0''" "str_int 9 = ''9''"
  by (simp_all add: str_int_def str_nat.simps digit_char_def)

subsection \<open>Initialisation\<close>

text \<open>
  C9: \<open>init_scores_file\<close> creates the file with exactly one row, the four fixed column
  names followed by the ids of the current criteria, when there is no file; when there
  is one, whatever its rows and its header, the world is left as it is.
\<close>

theorem init_scores_file_creates_or_keeps:
  "(scores_file w = None \<longrightarrow>
      init_scores_file w =
        w\<lparr>scores_file := Some [[''timestamp'', ''judge'', ''team_id'', ''team_name'']
                                 @ map crit_id (get_criteria w)]\<rparr>)
   \<and> (\<forall>rows. scores_file w = Some rows \<longrightarrow> init_scores_file w = w)"
  by (simp add: init_scores_file_def headers_of_def)

theorem init_scores_file_creates_or_keeps_witness:
  "scores_file no_file = None
   \<and> scores_file (init_scores_file no_file)
       = Some [[''timestamp'', ''judge'', ''team_id'', ''team_name'', ''c1'']]
   \<and> scores_file (no_file\<lparr>scores_file := Some [[''judge'', ''old'']]\<rparr>) = Some [[''judge'', ''old'']]
   \<and> init_scores_file (no_file\<lparr>scores_file := Some [[''judge'', ''old'']]\<rparr>)
       = no_file\<lparr>scores_file := Some [[''judge'', ''old'']]\<rparr>"
  using init_scores_file_creates_or_keeps [of no_file]
    init_scores_file_creates_or_keeps [of "no_file\<lparr>scores_file := Some [[''judge'', ''old'']]\<rparr>"]
  by (simp add: no_file_def get_criteria_def crit1_def)

subsection \<open>Round trip\<close>

text \<open>
  C7: on a ledger with no record (no file, the file \<open>init_scores_file\<close> has just made,
  or a file with no row at all) and the criteria \<open>c1\<close>, \<open>c2\<close>, saving the scores \<open>c1 = 5\<close>,
  \<open>c2 = 3\<close> of judge \<open>A\<close> for team \<open>T\<close> and reading all scores back gives exactly one
  record, with judge \<open>A\<close> and team \<open>T\<close>. Under \<open>c1\<close> and \<open>c2\<close> the record holds the texts
  \<open>'5'\<close> and \<open>'3'\<close>, as \<open>csv.DictReader\<close> returns every cell, and not the numbers 5 and 3:
  the second theorem below evaluates the values under \<open>c1\<close> and \<open>c2\<close> and finds texts.
\<close>

theorem save_then_get_all_scores:
  "get_all_scores
     (save_scores ''A'' ''T'' tname [''c1'' \<mapsto> 5, ''c2'' \<mapsto> 3]
        \<lparr>scores_file = None,
         config_criteria = [\<lparr>crit_id = ''c1'', crit_name = n1, max_score = m1\<rparr>,
                            \<lparr>crit_id = ''c2'', crit_name = n2, max_score = m2\<rparr>],
         clock = now\<rparr>)
   = [\<lparr>named = [(''timestamp'', Text now), (''judge'', Text ''A''), (''team_id'', Text ''T''),
               (''team_name'', Text tname), (''c1'', Text ''5''), (''c2'', Text ''3'')],
       restkey = None\<rparr>]
   \<and> get_all_scores
     (save_scores ''A'' ''T'' tname [''c1'' \<mapsto> 5, ''c2'' \<mapsto> 3]
        (init_scores_file
           \<lparr>scores_file = None,
            config_criteria = [\<lparr>crit_id = ''c1'', crit_name = n1, max_score = m1\<rparr>,
                               \<lparr>crit_id = ''c2'', crit_name = n2, max_score = m2\<rparr>],
            clock = now\<rparr>))
   = [\<lparr>named = [(''timestamp'', Text now), (''judge'', Text ''A''), (''team_id'', Text ''T''),
               (''team_name'', Text tname), (''c1'', Text ''5''), (''c2'', Text ''3'')],
       restkey = None\<rparr>]
   \<and> get_all_scores
     (save_scores ''A'' ''T'' tname [''c1'' \<mapsto> 5, ''c2'' \<mapsto> 3]
        \<lparr>scores_file = Some [],
         config_criteria = [\<lparr>crit_id = ''c1'', crit_name = n1, max_score = m1\<rparr>,
                            \<lparr>crit_id = ''c2'', crit_name = n2, max_score = m2\<rparr>],
         clock = now\<rparr>)
   = [\<lparr>named = [(''timestamp'', Text now), (''judge'', Text ''A''), (''team_id'', Text ''T''),
               (''team_name'', Text tname), (''c1'', Text ''5''), (''c2'', Text ''3'')],
       restkey = None\<rparr>]"
  by (simp add: get_all_scores_def save_scores_def init_scores_file_def get_criteria_def
      headers_of_def new_row_of_def scores_get_def str_int_digits row_to_dict_def row_matches_def)

theorem save_then_get_all_scores_not_numbers:
  "values_of ''c1'' (get_all_scores (save_scores ''A'' ''T'' ''Team T'' [''c1'' \<mapsto> 5, ''c2'' \<mapsto> 3] fresh))
     = [Some (Text ''5'')]
   \<and> values_of ''c1'' (get_all_scores (save_scores ''A'' ''T'' ''Team T'' [''c1'' \<mapsto> 5, ''c2'' \<mapsto> 3] fresh))
     \<noteq> [Some (Num 5)]
   \<and> values_of ''c2'' (get_all_scores (save_scores ''A'' ''T'' ''Team T'' [''c1'' \<mapsto> 5, ''c2'' \<mapsto> 3] fresh))
     = [Some (Text ''3'')]
   \<and> values_of ''c2'' (get_all_scores (save_scores ''A'' ''T'' ''Team T'' [''c1'' \<mapsto> 5, ''c2'' \<mapsto> 3] fresh))
     \<noteq> [Some (Num 3)]"
  by (simp add: values_of_def dict_get_def get_all_scores_def save_scores_def fresh_def crit1_def
      get_criteria_def headers_of_def new_row_of_def scores_get_def str_int_digits row_to_dict_def)

subsection \<open>One record per judge and team\<close>

lemma row_key_matches: "row_matches j t row \<longleftrightarrow> row_key row = [(j, t)]"
  by (auto simp: row_matches_def row_key_def)

lemma row_key_new_row: "row_key (new_row_of w j t n sc) = [(j, t)]"
  by (simp add: row_key_def new_row_of_def)

lemma filter_matches_keys:
  "length (filter (row_matches j t) rows) = length (filter (\<lambda>k. k = (j, t)) (concat (map row_key rows)))"
  by (induction rows) (auto simp: row_key_matches, auto simp: row_key_def)

lemma distinct_filter_le1: "distinct ks \<Longrightarrow> length (filter (\<lambda>k. k = a) ks) \<le> 1"
  by (induction ks) (auto simp: filter_empty_conv)

lemma first_match_None:
  "first_match j t k rows = None \<longleftrightarrow> filter (row_matches j t) rows = []"
  by (induction rows arbitrary: k) auto

lemma first_match_Some:
  "first_match j t k rows = Some i \<Longrightarrow>
     k \<le> i \<and> i - k < length rows \<and> row_matches j t (rows ! (i - k))"
proof (induction rows arbitrary: k)
  case Nil
  then show ?case by simp
next
  case (Cons row rows)
  show ?case
  proof (cases "row_matches j t row")
    case True
    with Cons.prems show ?thesis by simp
  next
    case False
    with Cons.prems have "first_match j t (Suc k) rows = Some i" by simp
    from Cons.IH [OF this] show ?thesis
      by (auto simp: nth_Cons' Suc_diff_Suc less_eq_Suc_le)
  qed
qed

lemma keys_update_same:
  assumes "m < length rows" "row_key (rows ! m) = row_key new"
  shows "concat (map row_key (rows[m := new])) = concat (map row_key rows)"
proof -
  have "map row_key (rows[m := new]) = (map row_key rows)[m := row_key (rows ! m)]"
    using assms by (simp add: map_update)
  also have "\<dots> = map row_key rows"
    using assms(1) by (metis length_map list_update_id nth_map)
  finally show ?thesis by simp
qed

lemma data_rows_existing: "drop (Suc 0) (existing_rows_of w) = data_rows w"
  by (auto simp: existing_rows_of_def data_rows_def split: option.splits)

lemma save_scores_file:
  "scores_file (save_scores j t n sc w) =
     Some (case first_match j t 1 (data_rows w) of
             Some i \<Rightarrow> (existing_rows_of w)[i := new_row_of w j t n sc]
           | None \<Rightarrow> existing_rows_of w @ [new_row_of w j t n sc])"
  by (auto simp: save_scores_def Let_def data_rows_def existing_rows_of_def split: option.splits)

lemma existing_rows_nonempty: "existing_rows_of w \<noteq> []"
  by (auto simp: existing_rows_of_def split: option.splits)

lemma save_scores_keys:
  "ledger_keys (save_scores j t n sc w) =
     (if records_for j t w = [] then ledger_keys w @ [(j, t)] else ledger_keys w)"
proof (cases "first_match j t 1 (data_rows w)")
  case None
  then have empty: "records_for j t w = []"
    by (simp add: first_match_None records_for_def)
  have "data_rows (save_scores j t n sc w) = drop 1 (existing_rows_of w @ [new_row_of w j t n sc])"
    using None by (simp add: data_rows_def [of "save_scores j t n sc w"] save_scores_file)
  also have "\<dots> = drop 1 (existing_rows_of w) @ [new_row_of w j t n sc]"
    using existing_rows_nonempty [of w] by (cases "existing_rows_of w") simp_all
  finally have "data_rows (save_scores j t n sc w) = data_rows w @ [new_row_of w j t n sc]"
    by (simp add: data_rows_existing)
  then show ?thesis
    using empty by (simp add: ledger_keys_def row_key_new_row)
next
  case (Some i)
  from first_match_Some [OF Some]
  have i: "1 \<le> i" "i - 1 < length (data_rows w)" "row_matches j t (data_rows w ! (i - 1))"
    by auto
  then have nonempty: "records_for j t w \<noteq> []"
    by (auto simp: records_for_def filter_empty_conv)
  have "data_rows (save_scores j t n sc w) = drop 1 ((existing_rows_of w)[i := new_row_of w j t n sc])"
    using Some by (simp add: data_rows_def [of "save_scores j t n sc w"] save_scores_file)
  also have "\<dots> = (data_rows w)[i - 1 := new_row_of w j t n sc]"
    using i(1) by (simp add: drop_update_swap data_rows_existing)
  finally have "data_rows (save_scores j t n sc w) = (data_rows w)[i - 1 := new_row_of w j t n sc]" .
  moreover have "row_key (data_rows w ! (i - 1)) = row_key (new_row_of w j t n sc)"
    using i(3) by (simp add: row_key_matches row_key_new_row)
  ultimately show ?thesis
    using nonempty i(2) by (simp add: ledger_keys_def keys_update_same)
qed

lemma records_for_keys:
  "records_for j t w = [] \<longleftrightarrow> (j, t) \<notin> set (ledger_keys w)"
proof -
  have "length (records_for j t w) = length (filter (\<lambda>k. k = (j, t)) (ledger_keys w))"
    by (simp add: records_for_def ledger_keys_def filter_matches_keys)
  then show ?thesis
    by (metis (mono_tags, lifting) filter_empty_conv length_0_conv)
qed

lemma save_scores_inv:
  "one_record_per_pair w \<Longrightarrow> one_record_per_pair (save_scores j t n sc w)"
  by (simp add: one_record_per_pair_def save_scores_keys records_for_keys)

lemma upsert_inv: "one_record_per_pair w \<Longrightarrow> one_record_per_pair (upsert c w)"
proof -
  assume inv: "one_record_per_pair w"
  have "ledger_keys (w\<lparr>config_criteria := call_criteria c, clock := call_clock c\<rparr>) = ledger_keys w"
    by (simp add: ledger_keys_def data_rows_def)
  with inv have "one_record_per_pair (w\<lparr>config_criteria := call_criteria c, clock := call_clock c\<rparr>)"
    by (simp add: one_record_per_pair_def)
  then show ?thesis
    unfolding upsert_def by (rule save_scores_inv)
qed

lemma fold_upsert_inv:
  "one_record_per_pair w \<Longrightarrow> one_record_per_pair (fold upsert calls w)"
  by (induction calls arbitrary: w) (simp_all add: upsert_inv)

lemma records_for_le1:
  "one_record_per_pair w \<Longrightarrow> length (records_for j t w) \<le> 1"
  by (simp add: records_for_def ledger_keys_def filter_matches_keys one_record_per_pair_def
      distinct_filter_le1 del: One_nat_def)

lemma save_scores_replaces:
  assumes "records_for j t w \<noteq> []"
  shows "\<exists>rows i. scores_file w = Some rows \<and> 0 < i \<and> i < length rows \<and> row_matches j t (rows ! i)
           \<and> scores_file (save_scores j t n sc w) = Some (rows[i := new_row_of w j t n sc])"
proof -
  from assms obtain i where m: "first_match j t 1 (data_rows w) = Some i"
    by (cases "first_match j t 1 (data_rows w)") (auto simp: first_match_None records_for_def)
  from first_match_Some [OF m]
  have i: "1 \<le> i" "i - 1 < length (data_rows w)" "row_matches j t (data_rows w ! (i - 1))"
    by auto
  from i(2) obtain rows where rows: "scores_file w = Some rows" "i - 1 < length (drop 1 rows)"
    by (cases "scores_file w") (auto simp: data_rows_def)
  then have ex: "existing_rows_of w = rows"
    by (auto simp: existing_rows_of_def)
  have "data_rows w ! (i - 1) = rows ! i"
    using rows i(1) by (simp add: data_rows_def)
  with i rows m ex show ?thesis
    by (intro exI [of _ rows] exI [of _ i]) (auto simp: save_scores_file)
qed

lemma save_scores_appends:
  assumes "records_for j t w = []"
  shows "scores_file (save_scores j t n sc w) = Some (existing_rows_of w @ [new_row_of w j t n sc])"
proof -
  from assms have "first_match j t 1 (data_rows w) = None"
    by (simp add: first_match_None records_for_def)
  then show ?thesis by (simp add: save_scores_file)
qed

lemma records_for_after_save:
  assumes "one_record_per_pair w"
  shows "length (records_for j t (save_scores j t n sc w)) = 1"
proof -
  have "one_record_per_pair (save_scores j t n sc w)"
    using assms by (rule save_scores_inv)
  then have "length (records_for j t (save_scores j t n sc w)) \<le> 1"
    by (rule records_for_le1)
  moreover have "(j, t) \<in> set (ledger_keys (save_scores j t n sc w))"
    by (simp add: save_scores_keys records_for_keys)
  then have "records_for j t (save_scores j t n sc w) \<noteq> []"
    by (simp add: records_for_keys)
  ultimately show ?thesis
    by (cases "records_for j t (save_scores j t n sc w)") simp_all
qed

text \<open>
  C1: in a ledger with at most one record per (judge, team) pair, and so in a ledger
  with no file yet, every sequence of calls of \<open>save_scores\<close>, each under its own clock
  and configuration, leaves at most one record per pair. One call for a pair that has a
  record overwrites that record where it stands, all cells of the row replaced and the
  timestamp read anew, every other row staying in place; a call for a pair without a
  record appends the new row at the end. After the call the pair has exactly one record.
\<close>

theorem save_scores_one_record_per_pair:
  assumes "one_record_per_pair w"
  shows "one_record_per_pair (fold upsert calls w)
    \<and> (\<forall>j' t'. length (records_for j' t' (fold upsert calls w)) \<le> 1)
    \<and> length (records_for j t (save_scores j t n sc w)) = 1
    \<and> (records_for j t w \<noteq> [] \<longrightarrow>
         (\<exists>rows i. scores_file w = Some rows \<and> 0 < i \<and> i < length rows
            \<and> row_matches j t (rows ! i)
            \<and> scores_file (save_scores j t n sc w) =
                Some (rows[i := [clock w, j, t, n]
                              @ map (\<lambda>c. str_int (scores_get sc (crit_id c))) (get_criteria w)])))
    \<and> (records_for j t w = [] \<longrightarrow>
         scores_file (save_scores j t n sc w) =
           Some (existing_rows_of w
                 @ [[clock w, j, t, n]
                    @ map (\<lambda>c. str_int (scores_get sc (crit_id c))) (get_criteria w)]))"
proof -
  have seq: "one_record_per_pair (fold upsert calls w)"
    using assms by (rule fold_upsert_inv)
  have le: "\<forall>j' t'. length (records_for j' t' (fold upsert calls w)) \<le> 1"
    using seq by (simp add: records_for_le1 del: One_nat_def)
  have one: "length (records_for j t (save_scores j t n sc w)) = 1"
    using assms by (rule records_for_after_save)
  have rep: "records_for j t w \<noteq> [] \<longrightarrow>
         (\<exists>rows i. scores_file w = Some rows \<and> 0 < i \<and> i < length rows
            \<and> row_matches j t (rows ! i)
            \<and> scores_file (save_scores j t n sc w) =
                Some (rows[i := [clock w, j, t, n]
                              @ map (\<lambda>c. str_int (scores_get sc (crit_id c))) (get_criteria w)]))"
    using save_scores_replaces [of j t w n sc] by (simp add: new_row_of_def)
  have app: "records_for j t w = [] \<longrightarrow>
         scores_file (save_scores j t n sc w) =
           Some (existing_rows_of w
                 @ [[clock w, j, t, n]
                    @ map (\<lambda>c. str_int (scores_get sc (crit_id c))) (get_criteria w)])"
    using save_scores_appends [of j t w n sc] by (simp add: new_row_of_def)
  from seq le one rep app show ?thesis by blast
qed

lemma inv_no_file: "one_record_per_pair no_file"
  by (simp add: one_record_per_pair_def ledger_keys_def data_rows_def no_file_def)

lemma inv_one_row: "one_record_per_pair one_row"
  by (simp add: one_record_per_pair_def ledger_keys_def data_rows_def one_row_def row_key_def)

theorem save_scores_one_record_per_pair_witness:
  "one_record_per_pair no_file
   \<and> records_for ''A'' ''T'' no_file = []
   \<and> scores_file (save_scores ''A'' ''T'' ''Team T'' [''c1'' \<mapsto> 5] no_file) = scores_file one_row
   \<and> records_for ''A'' ''T'' one_row \<noteq> []
   \<and> scores_file (save_scores ''A'' ''T'' ''Team T'' [''c1'' \<mapsto> 9] one_row)
       = Some [[''timestamp'', ''judge'', ''team_id'', ''team_name'', ''c1''],
               [''t1'', ''A'', ''T'', ''Team T'', ''9'']]
   \<and> one_record_per_pair
        (fold upsert [call_of ''t1'' ''A'' ''T'' 5, call_of ''t2'' ''B'' ''T'' 3,
                      call_of ''t3'' ''A'' ''T'' 9] no_file)
   \<and> length (records_for ''A'' ''T''
        (fold upsert [call_of ''t1'' ''A'' ''T'' 5, call_of ''t2'' ''B'' ''T'' 3,
                      call_of ''t3'' ''A'' ''T'' 9] no_file)) \<le> 1"
proof -
  have a: "records_for ''A'' ''T'' no_file = []"
    by (simp add: records_for_def data_rows_def no_file_def)
  have b: "records_for ''A'' ''T'' one_row \<noteq> []"
    by (simp add: records_for_def data_rows_def one_row_def row_matches_def)
  have ex: "existing_rows_of no_file = [[''timestamp'', ''judge'', ''team_id'', ''team_name'', ''c1'']]"
    by (simp add: existing_rows_of_def no_file_def get_criteria_def headers_of_def crit1_def)
  note t1 = save_scores_one_record_per_pair [OF inv_no_file,
      of "[call_of ''t1'' ''A'' ''T'' 5, call_of ''t2'' ''B'' ''T'' 3, call_of ''t3'' ''A'' ''T'' 9]"
         "''A''" "''T''" "''Team T''" "[''c1'' \<mapsto> 5]"]
  note t2 = save_scores_one_record_per_pair [OF inv_one_row, of "[]" "''A''" "''T''" "''Team T''"
      "[''c1'' \<mapsto> 9]"]
  have s1: "scores_file (save_scores ''A'' ''T'' ''Team T'' [''c1'' \<mapsto> 5] no_file) = scores_file one_row"
    using t1 a ex
    by (simp add: no_file_def one_row_def get_criteria_def crit1_def scores_get_def str_int_digits)
  from t2 b obtain rows i where r: "scores_file one_row = Some rows" "0 < i" "i < length rows"
    and s: "scores_file (save_scores ''A'' ''T'' ''Team T'' [''c1'' \<mapsto> 9] one_row) =
      Some (rows[i := [clock one_row, ''A'', ''T'', ''Team T'']
                  @ map (\<lambda>c. str_int (scores_get [''c1'' \<mapsto> 9] (crit_id c))) (get_criteria one_row)])"
    by blast
  from r have "rows = [[''timestamp'', ''judge'', ''team_id'', ''team_name'', ''c1''],
                 [''t0'', ''A'', ''T'', ''Team T'', ''5'']]" "i = 1"
    by (auto simp: one_row_def)
  with s have s2: "scores_file (save_scores ''A'' ''T'' ''Team T'' [''c1'' \<mapsto> 9] one_row)
       = Some [[''timestamp'', ''judge'', ''team_id'', ''team_name'', ''c1''],
               [''t1'', ''A'', ''T'', ''Team T'', ''9'']]"
    by (simp add: one_row_def get_criteria_def crit1_def scores_get_def str_int_digits)
  from t1 inv_no_file a b s1 s2 show ?thesis by blast
qed

section \<open>The normalization engine\<close>

subsection \<open>Rounding, clipping, mean and deviation\<close>

lemma exact_stats_sel [simp]: "series_mean exact_stats = mean" "series_std exact_stats = std"
  by (simp_all add: exact_stats_def)

lemma rint_unique:
  "of_int k - 1 / 2 < x \<Longrightarrow> x < of_int k + 1 / 2 \<Longrightarrow> rint x = k"
proof -
  assume lo: "of_int k - 1 / 2 < x" and hi: "x < of_int k + 1 / 2"
  show ?thesis
  proof (cases "of_int k \<le> x")
    case True
    then have "\<lfloor>x\<rfloor> = k" using hi by (simp add: floor_unique)
    then show ?thesis using hi by (simp add: rint_def Let_def)
  next
    case False
    then have "\<lfloor>x\<rfloor> = k - 1" using lo by (intro floor_unique) auto
    then show ?thesis using lo False by (simp add: rint_def Let_def)
  qed
qed

lemma rint_of_int [simp]: "rint (of_int k) = k"
  by (rule rint_unique) simp_all







lemma scale_z_0: "scale_z 0 = 50"
proof -
  have "round2 50 = 50"
    using rint_of_int [of 5000] by (simp add: round2_def)
  then show ?thesis by (simp add: scale_z_def clip_def)
qed

text \<open>Without rounding the deviation is never negative.\<close>

lemma std_nonneg: "0 \<le> std xs"
proof -
  have "0 \<le> sum_list (map (\<lambda>x. (x - mean xs)\<^sup>2) xs)"
    by (rule sum_list_nonneg) auto
  then show ?thesis by (simp add: std_def)
qed

lemma sqrt200: "14.1421 < sqrt 200" "sqrt 200 < 14.1422"
  by (rule real_less_rsqrt, simp add: power2_eq_square, rule real_less_lsqrt, simp_all add: power2_eq_square)

lemma mean_80_60: "mean [80, 60] = 70"
  by (simp add: mean_def)

lemma std_80_60: "std [80, 60] = sqrt 200"
  by (simp add: std_def mean_def)

lemma round2_val: "of_int k - 1 / 2 < x * 100 \<Longrightarrow> x * 100 < of_int k + 1 / 2 \<Longrightarrow> round2 x = of_int k / 100"
  by (simp add: round2_def rint_unique)

lemma clip_id: "lo \<le> x \<Longrightarrow> x \<le> hi \<Longrightarrow> clip x lo hi = x"
  by (simp add: clip_def)

lemma scale_z_inside:
  "of_int k - 1 / 2 < (z + 3) / 6 * 100 * 100 \<Longrightarrow> (z + 3) / 6 * 100 * 100 < of_int k + 1 / 2 \<Longrightarrow>
   0 \<le> (z + 3) / 6 * 100 \<Longrightarrow> (z + 3) / 6 * 100 \<le> 100 \<Longrightarrow> scale_z z = of_int k / 100"
proof -
  assume k: "of_int k - 1 / 2 < (z + 3) / 6 * 100 * 100" "(z + 3) / 6 * 100 * 100 < of_int k + 1 / 2"
    and r: "0 \<le> (z + 3) / 6 * 100" "(z + 3) / 6 * 100 \<le> 100"
  from r have "clip ((z + 3) / 6 * 100) 0 100 = (z + 3) / 6 * 100"
    by (rule clip_id)
  then show ?thesis
    unfolding scale_z_def using k by (simp only: round2_val)
qed

lemma z_alpha: "0.7071 < (80 - 70) / sqrt 200" "(80 - 70) / sqrt 200 < 0.7072"
proof -
  have pos: "0 < sqrt 200" by simp
  show "0.7071 < (80 - 70) / sqrt 200" "(80 - 70) / sqrt 200 < 0.7072"
    using sqrt200 pos by (simp_all add: field_simps)
qed

lemma scale_alpha: "scale_z ((80 - 70) / sqrt 200) = 61.79"
proof -
  have "scale_z ((80 - 70) / sqrt 200) = of_int 6179 / 100"
    using z_alpha by (intro scale_z_inside) simp_all
  then show ?thesis by simp
qed

lemma scale_beta: "scale_z ((60 - 70) / sqrt 200) = 38.21"
proof -
  have eq: "(60 - 70) / sqrt 200 = - ((80 - 70) / sqrt 200)" by simp
  have "scale_z (- ((80 - 70) / sqrt 200)) = of_int 3821 / 100"
    using z_alpha by (intro scale_z_inside) simp_all
  then show ?thesis by (simp only: eq) simp
qed

lemma upto10: "[0 ..< 10] = [0, 1, 2, 3, 4, 5, 6, 7, 8, 9]"
  by (simp add: upt_rec)

lemma plain_decimal_examples:
  "plain_decimal ''50'' = Some 50" "plain_decimal ''30'' = Some 30"
  "plain_decimal ''40'' = Some 40" "plain_decimal ''20'' = Some 20"
  "plain_decimal ''x'' = None" "plain_decimal '''' = None"
  by (simp_all add: plain_decimal_def digit_value_def upto10)

lemma plain_decimal_more:
  "plain_decimal ''60'' = Some 60" "plain_decimal ''80'' = Some 80"
  by (simp_all add: plain_decimal_def digit_value_def upto10)

lemma mean_std_examples:
  "mean [60, 80] = 70" "std [60, 80] = sqrt 200" "mean [70, 70] = 70" "std [70, 70] = 0"
  by (simp_all add: std_def mean_def)

lemma scale_alpha_beta: "scale_z (10 / sqrt 200) = 61.79" "scale_z (- (10 / sqrt 200)) = 38.21"
  using scale_alpha scale_beta by simp_all

lemma round2_cents: "round2 (of_int k / 100) = of_int k / 100"
  by (simp add: round2_def)

lemma round2_numeral_cents [simp]: "round2 (numeral n / 100) = numeral n / 100"
  using round2_cents [of "numeral n"] by simp

lemma round2_numeral [simp]: "round2 (numeral n) = numeral n"
  using rint_of_int [of "numeral n * 100"] by (simp add: round2_def)

lemma std_same: "std [t, t] = 0"
  by (simp add: std_def mean_def)

lemma std_near: "\<bar>std [80, 60] - 14.14\<bar> < 0.005"
  using sqrt200 by (simp add: std_80_60 abs_less_iff)

lemma z_near: "\<bar>10 / sqrt 200 - 0.707\<bar> < 0.0005"
  using z_alpha by (simp add: abs_less_iff)

subsection \<open>Raw totals\<close>

lemma coerce_columns_rows:
  "coerce_columns parse columns criteria_ids df = map (coerce_row parse columns criteria_ids) df"
  unfolding coerce_columns_def coerce_row_def
  by (induction criteria_ids arbitrary: df) (simp_all add: coerce_column_def)

lemma cell_at_update:
  "cell_at (AList.update k v r) k' = (if k' = k then v else cell_at r k')"
  by (simp add: cell_at_def update_conv')

lemma to_numeric_Num [simp]: "to_numeric parse (Num x) = x"
  by (simp add: to_numeric_def)

lemma cell_at_coerce_row:
  "cell_at (coerce_row parse columns criteria_ids r) k =
     (if k \<in> set criteria_ids \<and> k \<in> set columns then Num (to_numeric parse (cell_at r k))
      else cell_at r k)"
  unfolding coerce_row_def
proof (induction criteria_ids arbitrary: r)
  case Nil
  then show ?case by simp
next
  case (Cons cid cids)
  show ?case
    by (simp add: Cons.IH cell_at_update)
qed

lemma total_raw_when_columns_present:
  assumes "set criteria_ids \<subseteq> set columns"
  shows "add_total_raw columns criteria_ids (coerce_columns parse columns criteria_ids df) =
           Inr (map (\<lambda>r. \<lparr>cells = coerce_row parse columns criteria_ids r,
                            total_raw = sum_list (map (\<lambda>cid. to_numeric parse (cell_at r cid)) criteria_ids)\<rparr>) df)"
proof -
  have all: "list_all (\<lambda>cid. cid \<in> set columns) criteria_ids"
    using assms by (auto simp: list_all_iff)
  have "map (\<lambda>cid. number_of (cell_at (coerce_row parse columns criteria_ids r) cid)) criteria_ids
        = map (\<lambda>cid. to_numeric parse (cell_at r cid)) criteria_ids" for r
    using assms by (auto simp: cell_at_coerce_row number_of_def)
  then have "sum_list (map (\<lambda>cid. number_of (cell_at (coerce_row parse columns criteria_ids r) cid)) criteria_ids)
        = sum_list (map (\<lambda>cid. to_numeric parse (cell_at r cid)) criteria_ids)" for r
    by (rule arg_cong)
  then show ?thesis
    by (simp add: add_total_raw_def all coerce_columns_rows)
qed

text \<open>
  C2: the raw total of a record is meant to be the sum of its scores over the active
  criteria, a missing or malformed value counting 0, without ever raising. That holds
  when every active criterion is a column of the file (\<open>total_raw_when_columns_present\<close>).
  It fails on the ledger \<open>stale_header\<close>: the file was made under the criterion \<open>c1\<close>, the
  configuration now lists \<open>c1\<close> and \<open>c2\<close>, the loop over the criteria skips the column
  that is not there, and the selection \<open>df[criteria_ids]\<close> of the next line raises
  \<open>KeyError\<close>, whatever the reader of numbers.
\<close>

theorem normalize_scores_missing_column:
  "normalize_scores fl parse stale_header = Inl (KeyError [''c2''])"
proof -
  have all: "get_all_scores stale_header =
     [\<lparr>named = [(''timestamp'', Text ''t0''), (''judge'', Text ''A''), (''team_id'', Text ''T''),
                (''team_name'', Text ''Team T''), (''c1'', Text ''5'')], restkey = None\<rparr>]"
    by (simp add: get_all_scores_def stale_header_def one_row_def row_to_dict_def)
  have cols: "df_columns (get_all_scores stale_header) =
      [''timestamp'', ''judge'', ''team_id'', ''team_name'', ''c1'']"
    by (simp add: all df_columns_def)
  have ids: "map crit_id (get_criteria stale_header) = [''c1'', ''c2'']"
    by (simp add: get_criteria_def stale_header_def crit1_def crit2_def)
  have ne: "\<not> df_empty (get_all_scores stale_header)"
    unfolding df_empty_def cols by (simp add: all)
  have "add_total_raw [''timestamp'', ''judge'', ''team_id'', ''team_name'', ''c1''] [''c1'', ''c2''] df
        = Inl (KeyError [''c2''])" for df
    by (simp add: add_total_raw_def)
  then have "team_results_of fl parse stale_header = Inl (KeyError [''c2''])"
    unfolding team_results_of_def Let_def ids cols using ne by (simp add: all)
  then show ?thesis by (simp add: normalize_scores_def)
qed

subsection \<open>Z-scores per judge\<close>




lemma judge_of_set_z [simp]: "judge_of (set_z z x) = judge_of x"
  by (simp add: judge_of_def set_z_def)

lemma set_z_sel [simp]: "total_raw (set_z z x) = total_raw x" "z_score (set_z z x) = z"
  "cells (set_z z x) = cells x"
  by (simp_all add: set_z_def)






lemma all_scores_alpha_beta:
  "get_all_scores alpha_beta =
     [\<lparr>named = [(''timestamp'', Text ''t1''), (''judge'', Text ''J''), (''team_id'', Text ''a''),
                (''team_name'', Text ''Alpha''), (''c1'', Text ''50''), (''c2'', Text ''30'')],
       restkey = None\<rparr>,
      \<lparr>named = [(''timestamp'', Text ''t2''), (''judge'', Text ''J''), (''team_id'', Text ''b''),
                (''team_name'', Text ''Beta''), (''c1'', Text ''40''), (''c2'', Text ''20'')],
       restkey = None\<rparr>]"
  by (simp add: get_all_scores_def alpha_beta_def row_to_dict_def)

lemma columns_alpha_beta:
  "df_columns (get_all_scores alpha_beta) =
     [''timestamp'', ''judge'', ''team_id'', ''team_name'', ''c1'', ''c2'']"
  by (simp add: all_scores_alpha_beta df_columns_def)

lemma df_alpha_beta:
  "add_total_raw (df_columns (get_all_scores alpha_beta)) [''c1'', ''c2'']
     (coerce_columns plain_decimal (df_columns (get_all_scores alpha_beta)) [''c1'', ''c2'']
        (map named (get_all_scores alpha_beta)))
   = Inr [alpha_row, beta_row]"
  unfolding columns_alpha_beta
  by (simp add: all_scores_alpha_beta add_total_raw_def coerce_columns_def coerce_column_def
      cell_at_def to_numeric_def plain_decimal_examples number_of_def alpha_row_def beta_row_def)

lemma normalized_data_alpha_beta:
  "normalized_data exact_stats [alpha_row, beta_row] =
     [[set_z ((80 - 70) / sqrt 200) alpha_row, set_z ((60 - 70) / sqrt 200) beta_row]]"
proof -
  have j: "judge_of alpha_row = Text ''J''" "judge_of beta_row = Text ''J''"
    by (simp_all add: judge_of_def cell_at_def alpha_row_def beta_row_def)
  have t: "total_raw alpha_row = 80" "total_raw beta_row = 60"
    by (simp_all add: alpha_row_def beta_row_def)
  have f: "judge_frame (Text ''J'') [alpha_row, beta_row] = [alpha_row, beta_row]"
    by (simp add: judge_frame_def j cell_eq_def)
  show ?thesis
    by (simp add: normalized_data_def unique_def j f with_z_scores_def t mean_80_60 std_80_60 Let_def)
qed

lemma example_rows [simp]:
  "judge_of alpha_row = Text ''J''" "judge_of beta_row = Text ''J''"
  "total_raw alpha_row = 80" "total_raw beta_row = 60"
  by (simp_all add: judge_of_def cell_at_def alpha_row_def beta_row_def)

lemma judge_of_update_total [simp]: "judge_of (r\<lparr>total_raw := t\<rparr>) = judge_of r"
  by (simp add: judge_of_def)




subsection \<open>The 0 to 100 scale\<close>


lemma set_normalized_sel [simp]:
  "normalized_score (set_normalized r) = scale_z (z_score r)"
  "z_score (set_normalized r) = z_score r"
  "total_raw (set_normalized r) = total_raw r"
  "cells (set_normalized r) = cells r"
  "judge_of (set_normalized r) = judge_of r"
  by (simp_all add: set_normalized_def judge_of_def)



subsection \<open>Worked examples\<close>

lemma team_results_alpha_beta:
  "team_results_of exact_stats plain_decimal alpha_beta = Inr [alpha_result, beta_result]"
proof -
  have ne: "get_all_scores alpha_beta \<noteq> []" "\<not> df_empty (get_all_scores alpha_beta)"
  proof -
    show "get_all_scores alpha_beta \<noteq> []" by (simp add: all_scores_alpha_beta)
    then show "\<not> df_empty (get_all_scores alpha_beta)"
      by (simp add: df_empty_def columns_alpha_beta)
  qed
  have ids: "map crit_id (get_criteria alpha_beta) = [''c1'', ''c2'']"
    by (simp add: get_criteria_def alpha_beta_def crit1_def crit2_def)
  have agg: "aggregate_teams exact_stats [''timestamp'', ''judge'', ''team_id'', ''team_name'', ''c1'', ''c2'']
      (result_df_of [[set_z (10 / sqrt 200) alpha_row, set_z (- (10 / sqrt 200)) beta_row]])
     = Inr [alpha_result, beta_result]"
    by (simp add: aggregate_teams_def result_df_of_def set_normalized_def set_z_def unique_def
        team_of_def judge_of_def cell_at_def alpha_row_def beta_row_def team_entry_def cell_eq_def
        scale_alpha_beta mean_def alpha_result_def beta_result_def)
  show ?thesis
    unfolding team_results_of_def Let_def ids
    using ne by (simp add: df_alpha_beta normalized_data_alpha_beta) (simp add: columns_alpha_beta agg)
qed

lemma normalize_alpha_beta:
  "normalize_scores exact_stats plain_decimal alpha_beta = Inr [alpha_result, beta_result]"
  by (simp add: normalize_scores_def team_results_alpha_beta sort_results_def
      alpha_result_def beta_result_def)

lemma team_results_same_totals:
  "team_results_of exact_stats plain_decimal same_totals =
     Inr [entry ''a'' ''Alpha'' ''J'' 70 50, entry ''b'' ''Beta'' ''J'' 70 50]"
proof -
  have all: "get_all_scores same_totals =
     [\<lparr>named = [(''timestamp'', Text ''t1''), (''judge'', Text ''J''), (''team_id'', Text ''a''),
                (''team_name'', Text ''Alpha''), (''c1'', Text ''40''), (''c2'', Text ''30'')],
       restkey = None\<rparr>,
      \<lparr>named = [(''timestamp'', Text ''t2''), (''judge'', Text ''J''), (''team_id'', Text ''b''),
                (''team_name'', Text ''Beta''), (''c1'', Text ''30''), (''c2'', Text ''40'')],
       restkey = None\<rparr>]"
    by (simp add: get_all_scores_def same_totals_def row_to_dict_def)
  have cols: "df_columns (get_all_scores same_totals) =
     [''timestamp'', ''judge'', ''team_id'', ''team_name'', ''c1'', ''c2'']"
    by (simp add: all df_columns_def)
  have ids: "map crit_id (get_criteria same_totals) = [''c1'', ''c2'']"
    by (simp add: get_criteria_def same_totals_def crit1_def crit2_def)
  have ne: "\<not> df_empty (get_all_scores same_totals)"
    unfolding df_empty_def cols by (simp add: all)
  show ?thesis
    unfolding team_results_of_def Let_def ids cols using ne
    by (simp add: all add_total_raw_def coerce_columns_def coerce_column_def cell_at_def
        to_numeric_def plain_decimal_examples number_of_def normalized_data_def unique_def
        judge_of_def judge_frame_def cell_eq_def with_z_scores_def mean_std_examples
        aggregate_teams_def result_df_of_def set_normalized_def set_z_def team_of_def
        team_entry_def scale_z_0 mean_def entry_def Let_def)
qed

lemma team_results_tie_world:
  "team_results_of exact_stats plain_decimal tie_world =
     Inr [entry ''b'' ''Beta'' ''J1'' 60 38.21, entry ''a'' ''Alpha'' ''J1'' 80 61.79,
          entry ''d'' ''Delta'' ''J2'' 60 38.21, entry ''c'' ''Gamma'' ''J2'' 80 61.79]"
proof -
  have all: "get_all_scores tie_world =
     [\<lparr>named = [(''timestamp'', Text ''t1''), (''judge'', Text ''J1''), (''team_id'', Text ''b''),
                (''team_name'', Text ''Beta''), (''c1'', Text ''60'')], restkey = None\<rparr>,
      \<lparr>named = [(''timestamp'', Text ''t2''), (''judge'', Text ''J1''), (''team_id'', Text ''a''),
                (''team_name'', Text ''Alpha''), (''c1'', Text ''80'')], restkey = None\<rparr>,
      \<lparr>named = [(''timestamp'', Text ''t3''), (''judge'', Text ''J2''), (''team_id'', Text ''d''),
                (''team_name'', Text ''Delta''), (''c1'', Text ''60'')], restkey = None\<rparr>,
      \<lparr>named = [(''timestamp'', Text ''t4''), (''judge'', Text ''J2''), (''team_id'', Text ''c''),
                (''team_name'', Text ''Gamma''), (''c1'', Text ''80'')], restkey = None\<rparr>]"
    by (simp add: get_all_scores_def tie_world_def row_to_dict_def)
  have cols: "df_columns (get_all_scores tie_world) =
     [''timestamp'', ''judge'', ''team_id'', ''team_name'', ''c1'']"
    by (simp add: all df_columns_def)
  have ids: "map crit_id (get_criteria tie_world) = [''c1'']"
    by (simp add: get_criteria_def tie_world_def crit1_def)
  have ne: "\<not> df_empty (get_all_scores tie_world)"
    unfolding df_empty_def cols by (simp add: all)
  show ?thesis
    unfolding team_results_of_def Let_def ids cols using ne
    by (simp add: all add_total_raw_def coerce_columns_def coerce_column_def cell_at_def
        to_numeric_def plain_decimal_more number_of_def normalized_data_def unique_def
        judge_of_def judge_frame_def cell_eq_def with_z_scores_def mean_std_examples
        aggregate_teams_def result_df_of_def set_normalized_def set_z_def team_of_def
        team_entry_def scale_alpha_beta mean_def entry_def Let_def)
qed

lemma normalize_tie_world:
  "normalize_scores exact_stats plain_decimal tie_world =
     Inr [entry ''a'' ''Alpha'' ''J1'' 80 61.79, entry ''c'' ''Gamma'' ''J2'' 80 61.79,
          entry ''b'' ''Beta'' ''J1'' 60 38.21, entry ''d'' ''Delta'' ''J2'' 60 38.21]"
  by (simp add: normalize_scores_def team_results_tie_world sort_results_def entry_def)

lemma with_z_scores_same:
  "map z_score (with_z_scores exact_stats [\<lparr>cells = a, total_raw = t\<rparr>, \<lparr>cells = b, total_raw = t\<rparr>]) = [0, 0]"
  by (simp add: with_z_scores_def std_same Let_def)

text \<open>
  C5: with the mean and the sample deviation taken without rounding (\<open>exact_stats\<close>), in
  the ledger where one judge gives Alpha the scores 50 and 30 and Beta the scores
  40 and 20, the raw totals are 80 and 60, their mean is 70, the sample standard
  deviation is the square root of 200 (14.14 to two decimals), the z-scores are plus and
  minus 10 over that root (0.707 to three decimals), and the normalized scores are 61.79
  and 38.21, which are also the averages the ranking reports, Alpha first. Two rows of
  one judge with the same total both get z-score 0, which scales to 50: in the ledger
  where the judge gives both teams 70, both teams come out at 50.
\<close>

theorem alpha_80_beta_60:
  "add_total_raw (df_columns (get_all_scores alpha_beta)) (map crit_id (get_criteria alpha_beta))
     (coerce_columns plain_decimal (df_columns (get_all_scores alpha_beta))
        (map crit_id (get_criteria alpha_beta)) (map named (get_all_scores alpha_beta)))
     = Inr [alpha_row, beta_row]
   \<and> map total_raw [alpha_row, beta_row] = [80, 60]
   \<and> mean [80, 60] = 70
   \<and> \<bar>std [80, 60] - 14.14\<bar> < 0.005
   \<and> map z_score (concat (normalized_data exact_stats [alpha_row, beta_row]))
       = [10 / sqrt 200, - (10 / sqrt 200)]
   \<and> \<bar>10 / sqrt 200 - 0.707\<bar> < 0.0005
   \<and> map normalized_score (result_df_of (normalized_data exact_stats [alpha_row, beta_row])) = [61.79, 38.21]
   \<and> normalize_scores exact_stats plain_decimal alpha_beta =
       Inr [\<lparr>team_id = Text ''a'', team_name = Text ''Alpha'', avg_raw_score = 80,
             avg_normalized_score = 61.79, num_judges = 1,
             judge_scores = [\<lparr>judge = Text ''J'', raw_score = 80,
                              judge_normalized_score = 61.79\<rparr>]\<rparr>,
            \<lparr>team_id = Text ''b'', team_name = Text ''Beta'', avg_raw_score = 60,
             avg_normalized_score = 38.21, num_judges = 1,
             judge_scores = [\<lparr>judge = Text ''J'', raw_score = 60,
                              judge_normalized_score = 38.21\<rparr>]\<rparr>]
   \<and> map z_score (with_z_scores exact_stats [\<lparr>cells = a, total_raw = t\<rparr>, \<lparr>cells = b, total_raw = t\<rparr>]) = [0, 0]
   \<and> scale_z 0 = 50
   \<and> normalize_scores exact_stats plain_decimal same_totals =
       Inr [entry ''a'' ''Alpha'' ''J'' 70 50, entry ''b'' ''Beta'' ''J'' 70 50]"
proof -
  have ids: "map crit_id (get_criteria alpha_beta) = [''c1'', ''c2'']"
    by (simp add: get_criteria_def alpha_beta_def crit1_def crit2_def)
  have z: "map z_score (concat (normalized_data exact_stats [alpha_row, beta_row]))
       = [10 / sqrt 200, - (10 / sqrt 200)]"
    by (simp add: normalized_data_alpha_beta)
  have n: "map normalized_score (result_df_of (normalized_data exact_stats [alpha_row, beta_row])) = [61.79, 38.21]"
    by (simp add: normalized_data_alpha_beta result_df_of_def scale_alpha_beta)
  have same: "normalize_scores exact_stats plain_decimal same_totals =
       Inr [entry ''a'' ''Alpha'' ''J'' 70 50, entry ''b'' ''Beta'' ''J'' 70 50]"
    by (simp add: normalize_scores_def team_results_same_totals sort_results_def entry_def)
  have ab: "normalize_scores exact_stats plain_decimal alpha_beta =
       Inr [\<lparr>team_id = Text ''a'', team_name = Text ''Alpha'', avg_raw_score = 80,
             avg_normalized_score = 61.79, num_judges = 1,
             judge_scores = [\<lparr>judge = Text ''J'', raw_score = 80,
                              judge_normalized_score = 61.79\<rparr>]\<rparr>,
            \<lparr>team_id = Text ''b'', team_name = Text ''Beta'', avg_raw_score = 60,
             avg_normalized_score = 38.21, num_judges = 1,
             judge_scores = [\<lparr>judge = Text ''J'', raw_score = 60,
                              judge_normalized_score = 38.21\<rparr>]\<rparr>]"
    using normalize_alpha_beta by (simp add: alpha_result_def beta_result_def)
  have t: "map total_raw [alpha_row, beta_row] = [80, 60]" by simp
  show ?thesis
    unfolding ids
    using df_alpha_beta t mean_80_60 std_near z z_near n ab with_z_scores_same [of a t b]
      scale_z_0 same
    by blast
qed

subsection \<open>The ranking\<close>

text \<open>
  C6: the list \<open>normalize_scores\<close> returns is the list of team results built by the loop
  over the teams, in descending order of \<open>avg_normalized_score\<close>, and the sort is stable:
  for every value of that average, the results that have it stand in the order they had
  before the sort.
\<close>

theorem ranking_sorted_stable:
  assumes "normalize_scores fl parse w = Inr ranking"
  shows "\<exists>team_results. team_results_of fl parse w = Inr team_results
           \<and> sorted_wrt (\<lambda>a b. avg_normalized_score b \<le> avg_normalized_score a) ranking
           \<and> length ranking = length team_results
           \<and> set ranking = set team_results
           \<and> (\<forall>k. filter (\<lambda>x. avg_normalized_score x = k) ranking
                    = filter (\<lambda>x. avg_normalized_score x = k) team_results)"
proof -
  from assms obtain team_results where tr: "team_results_of fl parse w = Inr team_results"
    and rk: "ranking = sort_results team_results"
    by (auto simp: normalize_scores_def split: sum.splits)
  have "sorted (map (\<lambda>x. - avg_normalized_score x) ranking)"
    unfolding rk sort_results_def by (rule sorted_sort_key)
  then have desc: "sorted_wrt (\<lambda>a b. avg_normalized_score b \<le> avg_normalized_score a) ranking"
    by (simp add: sorted_map)
  have stable: "filter (\<lambda>x. avg_normalized_score x = k) ranking
                    = filter (\<lambda>x. avg_normalized_score x = k) team_results" for k
  proof -
    have "filter (\<lambda>x. - avg_normalized_score x = - k) (sort_key (\<lambda>x. - avg_normalized_score x) team_results)
          = filter (\<lambda>x. - avg_normalized_score x = - k) team_results"
      by (rule sort_key_stable)
    then show ?thesis by (simp add: rk sort_results_def)
  qed
  have "length ranking = length team_results" "set ranking = set team_results"
    by (simp_all add: rk sort_results_def)
  with tr desc stable show ?thesis by blast
qed

theorem ranking_sorted_stable_witness:
  "normalize_scores exact_stats plain_decimal tie_world =
     Inr [entry ''a'' ''Alpha'' ''J1'' 80 61.79, entry ''c'' ''Gamma'' ''J2'' 80 61.79,
          entry ''b'' ''Beta'' ''J1'' 60 38.21, entry ''d'' ''Delta'' ''J2'' 60 38.21]
   \<and> team_results_of exact_stats plain_decimal tie_world =
     Inr [entry ''b'' ''Beta'' ''J1'' 60 38.21, entry ''a'' ''Alpha'' ''J1'' 80 61.79,
          entry ''d'' ''Delta'' ''J2'' 60 38.21, entry ''c'' ''Gamma'' ''J2'' 80 61.79]
   \<and> sorted_wrt (\<lambda>a b. avg_normalized_score b \<le> avg_normalized_score a)
        [entry ''a'' ''Alpha'' ''J1'' 80 61.79, entry ''c'' ''Gamma'' ''J2'' 80 61.79,
         entry ''b'' ''Beta'' ''J1'' 60 38.21, entry ''d'' ''Delta'' ''J2'' 60 38.21]
   \<and> filter (\<lambda>x. avg_normalized_score x = 61.79)
        [entry ''a'' ''Alpha'' ''J1'' 80 61.79, entry ''c'' ''Gamma'' ''J2'' 80 61.79,
         entry ''b'' ''Beta'' ''J1'' 60 38.21, entry ''d'' ''Delta'' ''J2'' 60 38.21]
      = filter (\<lambda>x. avg_normalized_score x = 61.79)
        [entry ''b'' ''Beta'' ''J1'' 60 38.21, entry ''a'' ''Alpha'' ''J1'' 80 61.79,
         entry ''d'' ''Delta'' ''J2'' 60 38.21, entry ''c'' ''Gamma'' ''J2'' 80 61.79]"
proof -
  from ranking_sorted_stable [OF normalize_tie_world]
  obtain team_results where tr: "team_results_of exact_stats plain_decimal tie_world = Inr team_results"
    and sorted: "sorted_wrt (\<lambda>a b. avg_normalized_score b \<le> avg_normalized_score a)
        [entry ''a'' ''Alpha'' ''J1'' 80 61.79, entry ''c'' ''Gamma'' ''J2'' 80 61.79,
         entry ''b'' ''Beta'' ''J1'' 60 38.21, entry ''d'' ''Delta'' ''J2'' 60 38.21]"
    and stable: "\<forall>k. filter (\<lambda>x. avg_normalized_score x = k)
        [entry ''a'' ''Alpha'' ''J1'' 80 61.79, entry ''c'' ''Gamma'' ''J2'' 80 61.79,
         entry ''b'' ''Beta'' ''J1'' 60 38.21, entry ''d'' ''Delta'' ''J2'' 60 38.21]
      = filter (\<lambda>x. avg_normalized_score x = k) team_results"
    by blast
  from tr have "team_results =
     [entry ''b'' ''Beta'' ''J1'' 60 38.21, entry ''a'' ''Alpha'' ''J1'' 80 61.79,
      entry ''d'' ''Delta'' ''J2'' 60 38.21, entry ''c'' ''Gamma'' ''J2'' 80 61.79]"
    by (simp add: team_results_tie_world)
  with stable sorted normalize_tie_world team_results_tie_world show ?thesis
    by blast
qed

subsection \<open>No scores\<close>

text \<open>
  C10: without a scores file \<open>get_all_scores\<close> returns the empty list, and whenever
  \<open>get_all_scores\<close> returns the empty list \<open>normalize_scores\<close> returns the empty ranking;
  neither raises.
\<close>

theorem no_scores_no_error:
  "(scores_file w = None \<longrightarrow> get_all_scores w = [])
   \<and> (get_all_scores w = [] \<longrightarrow> normalize_scores fl parse w = Inr [])"
  by (simp add: get_all_scores_def normalize_scores_def team_results_of_def sort_results_def)

theorem no_scores_no_error_witness:
  "scores_file no_file = None \<and> get_all_scores no_file = []
   \<and> normalize_scores exact_stats plain_decimal no_file = Inr []
   \<and> get_all_scores (init_scores_file no_file) = []
   \<and> normalize_scores exact_stats plain_decimal (init_scores_file no_file) = Inr []"
proof -
  have a: "scores_file no_file = None" by (simp add: no_file_def)
  have b: "get_all_scores (init_scores_file no_file) = []"
    by (simp add: get_all_scores_def init_scores_file_def no_file_def)
  from no_scores_no_error [where w = no_file and fl = exact_stats and parse = plain_decimal]
    no_scores_no_error [where w = "init_scores_file no_file" and fl = exact_stats
      and parse = plain_decimal] a b
  show ?thesis by simp
qed

end
